theory Spec2Isabelle
  imports Complex_Main
begin

section \<open>Data model of \<open>ragas_eval.py\<close>\<close>

text \<open>
  Python strings are sequences of code points. Every code point of the texts of this
  script that is modelled here lies below 256, so a \<open>char\<close> holds one code point
  (\<open>CHR 0xBF\<close> is the inverted question mark, \<open>CHR 0xE1\<close> is a with acute accent).

  A Python float is either a number or NaN. Rounding is not modelled: numbers are reals.
\<close>

datatype pyfloat = NaN | Num real

text \<open>
  A cell of the table of results is a float or a text. A frame (a pandas DataFrame) is
  kept by column: its index labels and, for each column in order, the column's name and
  cells.
\<close>

datatype pyval = Float pyfloat | Str string

record 'a dataframe =
  df_index :: "nat list"
  df_series :: "(string \<times> 'a list) list"

text \<open>A hyperparameter preset: one dict of \<open>get_manual_hyperparameter_configs\<close>.\<close>

record hyper_config =
  name :: string
  chunk_size :: nat
  top_k :: nat
  temperature :: real

definition get_manual_hyperparameter_configs :: "hyper_config list" where
  "get_manual_hyperparameter_configs =
     [\<lparr>name = ''Creative & Balanced'', chunk_size = 1000, top_k = 4, temperature = 0.3\<rparr>,
      \<lparr>name = ''Wide Context Sweep'', chunk_size = 1200, top_k = 6, temperature = 0.1\<rparr>,
      \<lparr>name = ''Balanced Natural'', chunk_size = 1000, top_k = 3, temperature = 0.2\<rparr>,
      \<lparr>name = ''Dense Precision'', chunk_size = 1800, top_k = 2, temperature = 0.15\<rparr>]"

text \<open>
  The benchmark. \<open>data\<close> is the dict of two lists of \<open>create_evaluation_dataset\<close>;
  \<open>pd.DataFrame(data)\<close> makes row \<open>i\<close> from the \<open>i\<close>-th element of each list, under
  the index \<open>0, 1, ...\<close>, and raises ValueError when the lists differ in length.
\<close>

definition data_question :: "string list" where
  "data_question =
     [[CHR 0xBF] @ ''Cu'' @ [CHR 0xE1] @ ''les son las condiciones que deben darse para que la compa'' @ [CHR 0xF1] @ [CHR 0xED] @ ''a aseguradora reembolse los gastos m'' @ [CHR 0xE9] @ ''dicos?'',
      [CHR 0xBF] @ ''Cu'' @ [CHR 0xE1] @ ''les son las coberturas que otorga la compa'' @ [CHR 0xF1] @ [CHR 0xED] @ ''a aseguradora para prestaciones m'' @ [CHR 0xE9] @ ''dicas de alto costo?'',
      [CHR 0xBF] @ ''Cu'' @ [CHR 0xE1] @ ''les son las exclusiones del seguro de COVID-19?'',
      [CHR 0xBF] @ ''Cu'' @ [CHR 0xE1] @ ''ndo debe ser denunciado el siniestro de enfermedades graves?'']"

definition data_ground_truth :: "string list" where
  "data_ground_truth =
     [''Que haya transcurrido el periodo de carencia, que la p'' @ [CHR 0xF3] @ ''liza est'' @ [CHR 0xE9] @ '' vigente y que no haya transcurrido el plazo para la cobertura del Evento.'',
      ''Beneficio de hospitalizaci'' @ [CHR 0xF3] @ ''n (d'' @ [CHR 0xED] @ ''as cama, servicios, honorarios m'' @ [CHR 0xE9] @ ''dicos), pr'' @ [CHR 0xF3] @ ''tesis, cirug'' @ [CHR 0xED] @ ''a dental por accidente, servicio de enfermera y ambulancia, y beneficio ambulatorio.'',
      ''Gastos de hospitalizaci'' @ [CHR 0xF3] @ ''n, rehabilitaci'' @ [CHR 0xF3] @ ''n o fallecimiento asociados a enfermedades distintas al COVID-19.'',
      ''El asegurado debe notificar a la compa'' @ [CHR 0xF1] @ [CHR 0xED] @ ''a tan pronto sea posible una vez tomado conocimiento del diagn'' @ [CHR 0xF3] @ ''stico de la enfermedad grave cubierta.'']"

record eval_row =
  question :: string
  ground_truth :: string

datatype py_exception = ValueError | KeyError | External_failure

definition pd_DataFrame_columns :: "string list \<Rightarrow> string list \<Rightarrow> py_exception + eval_row list" where
  "pd_DataFrame_columns qs gs =
     (if length qs \<noteq> length gs then Inl ValueError
      else Inr (map (\<lambda>(q, g). \<lparr>question = q, ground_truth = g\<rparr>) (zip qs gs)))"

definition create_evaluation_dataset :: "py_exception + eval_row list" where
  "create_evaluation_dataset = pd_DataFrame_columns data_question data_ground_truth"

text \<open>\<open>eval_dataset_pd.iterrows()\<close>: the rows with their index labels, in order.\<close>

definition iterrows :: "eval_row list \<Rightarrow> (nat \<times> eval_row) list" where
  "iterrows rs = zip [0 ..< length rs] rs"

section \<open>Shared configuration and external objects\<close>

text \<open>
  The modules \<open>generative_resp.config_model\<close> and \<open>generative_resp.config_vectordb\<close> are
  imported by the script but are not part of the source tree at hand. The constants the
  script reads from them are parameters of the model.
\<close>

record shared_config =
  GEMINI_MODEL :: string
  GEMINI_API_KEY :: string
  MAX_OUT_TOKENS :: nat
  EMBEDDING_MODEL :: string
  CHUNK_OVERLAP :: nat

text \<open>
  Objects of the external libraries are modelled by the arguments they are constructed
  from: the script never looks inside them.
\<close>

record chat_llm =
  llm_model :: string
  llm_api_key :: string
  llm_temperature :: real
  llm_timeout :: "nat option"
  llm_max_output_tokens :: "nat option"

record hf_embeddings =
  model_name :: string
  device :: string
  normalize_embeddings :: bool

datatype ragas_llm = LangchainLLMWrapper chat_llm

datatype ragas_embeddings = LangchainEmbeddingsWrapper hf_embeddings

record text_splitter =
  splitter_chunk_size :: nat
  splitter_chunk_overlap :: nat

type_synonym document = string

record retriever =
  retriever_docs :: "document list"
  retriever_splitter :: text_splitter
  retriever_embedding :: hf_embeddings
  search_k :: nat

record rag_chain =
  chain_retriever :: retriever
  chain_prompt :: string
  chain_llm :: chat_llm

record run_config =
  max_workers :: nat

datatype metric = faithfulness | answer_relevancy | context_precision | context_recall

text \<open>The \<open>name\<close> attribute of the four metric objects of the scoring library.\<close>

fun metric_name :: "metric \<Rightarrow> string" where
  "metric_name faithfulness = ''faithfulness''"
| "metric_name answer_relevancy = ''answer_relevancy''"
| "metric_name context_precision = ''context_precision''"
| "metric_name context_recall = ''context_recall''"

text \<open>
  The metric objects are module-level objects of the scoring library, shared by every
  caller. The script writes their \<open>llm\<close> attribute and, where the attribute exists,
  their \<open>embeddings\<close> attribute. \<open>metric_embeddings\<close> is \<open>None\<close> when the object has no
  such attribute and \<open>Some v\<close> when it has one with value \<open>v\<close>.
\<close>

record metric_object =
  metric_llm :: "ragas_llm option"
  metric_embeddings :: "ragas_embeddings option option"

type_synonym metric_store = "metric \<Rightarrow> metric_object"

record evaluate_call =
  call_question :: string
  call_answer :: string
  call_contexts :: "string list"
  call_ground_truth :: string
  call_metrics :: "metric list"
  call_raise_exceptions :: bool
  call_run_config :: run_config

section \<open>Effects\<close>

text \<open>
  What the script prints. A message that is a plain literal of code points below 256 is
  \<open>Text\<close>; the formatted messages and the ones that hold a pictograph have a constructor
  of their own, with the values that are formatted into them. \<open>Msg_frame\<close> is a frame
  given to \<open>print\<close> as it is: no \<open>print\<close> of the script is given one.
\<close>

datatype message =
    Text string
  | Msg_configured
  | Msg_configure_error
  | Msg_evaluating_config nat nat string
  | Msg_hyperparameters nat nat real
  | Msg_evaluating_question nat nat
  | Msg_success_list
  | Msg_success_object
  | Msg_success_dict
  | Msg_unexpected_scores
  | Msg_no_scores
  | Msg_exception
  | Msg_pause_180
  | Msg_average_header
  | Msg_metric_score string real
  | Msg_metric_failed string
  | Msg_pause_300
  | Msg_frame "pyval dataframe"

text \<open>The calls that leave the script, in the order they are made.\<close>

datatype event =
    Print message
  | New_chat_llm chat_llm
  | New_embeddings hf_embeddings
  | Split_documents text_splitter "document list"
  | FAISS_from_documents hf_embeddings
  | Chain_invoke rag_chain string
  | Retriever_invoke retriever string
  | Evaluate evaluate_call
  | Sleep nat

section \<open>The environment\<close>

text \<open>
  The external libraries and the hosted model decide how each call ends. The environment
  fixes these answers: where (if anywhere) the construction of the scoring dependencies
  raises, where the construction of the chain of configuration \<open>i\<close> raises, and how the
  \<open>try\<close> block of question \<open>index\<close> under configuration \<open>i\<close> ends.

  The scores that the scoring library returns are typed as the script expects them: an
  element of a list of scores is a dict from metric names to floats, and so is what
  \<open>to_dict\<close> returns and a dict of scores itself. The response of the chain and the
  retrieved contexts are texts. Where the library returns something else, the \<open>get\<close>
  of the \<open>finally\<close> block or the mean over the records raises outside every handler
  and \<open>run_evaluation\<close> returns nothing; such runs are not among the environments.
\<close>

datatype configure_step = At_gemini_llm | At_hf_embeddings

datatype configure_outcome = Configured | Configure_raises configure_step

datatype build_step = At_text_splitter | At_split | At_embeddings | At_index | At_llm

datatype build_outcome = Built | Build_raises build_step

datatype scores_obj =
    Scores_list "(string \<rightharpoonup> pyfloat) list"
  | Scores_with_to_dict "(string \<rightharpoonup> pyfloat) option"
  | Scores_dict "string \<rightharpoonup> pyfloat"
  | Scores_other

datatype eval_result = Without_scores | With_scores scores_obj

datatype question_outcome =
    Chain_raises
  | Retriever_raises string
  | Scoring_raises string "string list"
  | Evaluated string "string list" eval_result

record env =
  configure_result :: configure_outcome
  build_result :: "nat \<Rightarrow> build_outcome"
  question_result :: "nat \<Rightarrow> nat \<Rightarrow> question_outcome"

section \<open>The table library\<close>

text \<open>
  The part of pandas the script uses, modelled from the library's documented behaviour.
  A Python dict keeps its keys in insertion order and is an association list with
  distinct keys here.
\<close>

definition columns :: "'a dataframe \<Rightarrow> string list" where
  "columns df = map fst (df_series df)"

text \<open>\<open>d[k] = v\<close>: an existing key keeps its place, a new key goes last.\<close>

fun dict_set :: "(string \<times> 'a) list \<Rightarrow> string \<Rightarrow> 'a \<Rightarrow> (string \<times> 'a) list" where
  "dict_set [] k v = [(k, v)]"
| "dict_set ((k', v') # d) k v = (if k' = k then (k, v) # d else (k', v') # dict_set d k v)"

text \<open>\<open>d.get(k, default)\<close>.\<close>

definition dict_get :: "(string \<rightharpoonup> 'a) \<Rightarrow> string \<Rightarrow> 'a \<Rightarrow> 'a" where
  "dict_get d k dflt = (case d k of None \<Rightarrow> dflt | Some v \<Rightarrow> v)"

text \<open>The keys of a list of dicts in the order of their first appearance.\<close>

fun first_seen :: "string list \<Rightarrow> string list \<Rightarrow> string list" where
  "first_seen seen [] = seen"
| "first_seen seen (k # ks) = (if k \<in> set seen then first_seen seen ks else first_seen (seen @ [k]) ks)"

text \<open>
  \<open>pd.DataFrame(records)\<close> on a list of dicts: one row per dict under the index
  \<open>0, 1, ...\<close>, one column per key, and the missing-value marker \<open>na\<close> where a dict lacks
  a key.
\<close>

definition DataFrame :: "'a \<Rightarrow> (string \<times> 'a) list list \<Rightarrow> 'a dataframe" where
  "DataFrame na records =
     (let cols = first_seen [] (concat (map (map fst) records))
      in \<lparr>df_index = [0 ..< length records],
          df_series = map (\<lambda>c. (c, map (\<lambda>r. dict_get (map_of r) c na) records)) cols\<rparr>)"

text \<open>
  The mean of one column with \<open>skipna=True\<close>, as pandas computes it: missing cells are
  filled with zero and summed with the rest, the count is that of the cells that are not
  missing, and the mean is the sum over the count, or NaN when the count is zero.
\<close>

definition isna :: "pyfloat \<Rightarrow> bool" where
  "isna v = (case v of NaN \<Rightarrow> True | Num x \<Rightarrow> False)"

definition fillna0 :: "pyfloat \<Rightarrow> real" where
  "fillna0 v = (case v of NaN \<Rightarrow> 0 | Num x \<Rightarrow> x)"

definition nanmean :: "pyfloat list \<Rightarrow> pyfloat" where
  "nanmean values =
     (let count = length values - length (filter isna values);
          the_sum = sum_list (map fillna0 values)
      in if count > 0 then Num (the_sum / real count) else NaN)"

text \<open>\<open>df.mean().to_dict()\<close>: the mean of every column, keyed by column name.\<close>

definition mean_to_dict :: "pyfloat dataframe \<Rightarrow> (string \<times> pyfloat) list" where
  "mean_to_dict df = map (\<lambda>(c, values). (c, nanmean values)) (df_series df)"

text \<open>\<open>df[cols]\<close>: the named columns in the order asked for; KeyError when one is missing.\<close>

fun select_series :: "(string \<times> 'a list) list \<Rightarrow> string list \<Rightarrow> py_exception + (string \<times> 'a list) list" where
  "select_series ss [] = Inr []"
| "select_series ss (c # cs) =
     (case map_of ss c of
        None \<Rightarrow> Inl KeyError
      | Some values \<Rightarrow>
          (case select_series ss cs of
             Inl e \<Rightarrow> Inl e
           | Inr rest \<Rightarrow> Inr ((c, values) # rest)))"

definition getitem_columns :: "'a dataframe \<Rightarrow> string list \<Rightarrow> py_exception + 'a dataframe" where
  "getitem_columns df cols =
     (case select_series (df_series df) cols of
        Inl e \<Rightarrow> Inl e
      | Inr ss \<Rightarrow> Inr \<lparr>df_index = df_index df, df_series = ss\<rparr>)"

section \<open>The functions of the script\<close>

subsection \<open>\<open>configure_ragas_dependencies\<close>\<close>

definition gemini_llm :: "shared_config \<Rightarrow> chat_llm" where
  "gemini_llm cfg =
     \<lparr>llm_model = GEMINI_MODEL cfg, llm_api_key = GEMINI_API_KEY cfg, llm_temperature = 0.0,
      llm_timeout = Some 300, llm_max_output_tokens = None\<rparr>"

definition hf_embeddings_of :: "shared_config \<Rightarrow> hf_embeddings" where
  "hf_embeddings_of cfg =
     \<lparr>model_name = EMBEDDING_MODEL cfg, device = ''cpu'', normalize_embeddings = True\<rparr>"

definition configure_ragas_dependencies ::
  "shared_config \<Rightarrow> env \<Rightarrow> event list \<times> (ragas_llm option \<times> ragas_embeddings option)" where
  "configure_ragas_dependencies cfg e =
     (let start = [Print (Text ''Configurando dependencias de RAGAS (LLM y Embeddings)...'')]
      in case configure_result e of
           Configure_raises At_gemini_llm \<Rightarrow>
             (start @ [New_chat_llm (gemini_llm cfg), Print Msg_configure_error], (None, None))
         | Configure_raises At_hf_embeddings \<Rightarrow>
             (start @ [New_chat_llm (gemini_llm cfg), New_embeddings (hf_embeddings_of cfg),
                       Print Msg_configure_error], (None, None))
         | Configured \<Rightarrow>
             (start @ [New_chat_llm (gemini_llm cfg), New_embeddings (hf_embeddings_of cfg),
                       Print Msg_configured],
              (Some (LangchainLLMWrapper (gemini_llm cfg)),
               Some (LangchainEmbeddingsWrapper (hf_embeddings_of cfg)))))"

subsection \<open>\<open>create_rag_chain\<close>\<close>

definition prompt_template :: string where
  "prompt_template =
     ''Usa los siguientes fragmentos de contexto para responder la pregunta. Si no sabes la respuesta, simplemente di que no lo sabes. Responde en espa'' @ [CHR 0xF1] @ ''ol.'' @ [CHR 0x0A] @ [CHR 0x0A] @ ''Contexto: {context}'' @ [CHR 0x0A] @ [CHR 0x0A] @ ''Pregunta: {question}'' @ [CHR 0x0A] @ [CHR 0x0A] @ ''Respuesta '' @ [CHR 0xFA] @ ''til:''"

text \<open>
  The objects \<open>create_rag_chain\<close> constructs, in the order it constructs them: the text
  splitter, the embedding model, the retriever over the index of the splits, the model
  client and the chain.
\<close>

definition rag_objects ::
  "shared_config \<Rightarrow> document list \<Rightarrow> real \<Rightarrow> nat \<Rightarrow> nat
     \<Rightarrow> text_splitter \<times> hf_embeddings \<times> retriever \<times> chat_llm \<times> rag_chain" where
  "rag_objects cfg docs temperature' top_k' chunk_size' =
     (let text_splitter = \<lparr>splitter_chunk_size = chunk_size',
                           splitter_chunk_overlap = CHUNK_OVERLAP cfg\<rparr>;
          embeddings = hf_embeddings_of cfg;
          retriever = \<lparr>retriever_docs = docs, retriever_splitter = text_splitter,
                       retriever_embedding = embeddings, search_k = top_k'\<rparr>;
          llm = \<lparr>llm_model = GEMINI_MODEL cfg, llm_api_key = GEMINI_API_KEY cfg,
                 llm_temperature = temperature', llm_timeout = None,
                 llm_max_output_tokens = Some (MAX_OUT_TOKENS cfg)\<rparr>;
          rag_chain = \<lparr>chain_retriever = retriever, chain_prompt = prompt_template,
                       chain_llm = llm\<rparr>
      in (text_splitter, embeddings, retriever, llm, rag_chain))"

text \<open>
  The chain is built outside every \<open>try\<close> block: an exception of the splitter (when
  it is constructed or when it splits), of the embedding model, of the index or of the
  model client leaves \<open>create_rag_chain\<close> and its caller. A call that raises is in the
  trace; the construction of the splitter is no call of its own, so nothing is in the
  trace when it raises.
\<close>

definition create_rag_chain ::
  "shared_config \<Rightarrow> build_outcome \<Rightarrow> document list \<Rightarrow> real \<Rightarrow> nat \<Rightarrow> nat
     \<Rightarrow> event list \<times> (py_exception + rag_chain \<times> retriever)" where
  "create_rag_chain cfg outcome docs temperature' top_k' chunk_size' =
     (case rag_objects cfg docs temperature' top_k' chunk_size' of
        (text_splitter, embeddings, retriever, llm, rag_chain) \<Rightarrow>
          (case outcome of
             Build_raises At_text_splitter \<Rightarrow> ([], Inl External_failure)
           | Build_raises At_split \<Rightarrow>
               ([Split_documents text_splitter docs], Inl External_failure)
           | Build_raises At_embeddings \<Rightarrow>
               ([Split_documents text_splitter docs, New_embeddings embeddings],
                Inl External_failure)
           | Build_raises At_index \<Rightarrow>
               ([Split_documents text_splitter docs, New_embeddings embeddings,
                 FAISS_from_documents embeddings], Inl External_failure)
           | Build_raises At_llm \<Rightarrow>
               ([Split_documents text_splitter docs, New_embeddings embeddings,
                 FAISS_from_documents embeddings, New_chat_llm llm], Inl External_failure)
           | Built \<Rightarrow>
               ([Split_documents text_splitter docs, New_embeddings embeddings,
                 FAISS_from_documents embeddings, New_chat_llm llm],
                Inr (rag_chain, retriever))))"

subsection \<open>\<open>run_evaluation\<close>\<close>

definition metrics :: "metric list" where
  "metrics = [faithfulness, answer_relevancy, context_precision, context_recall]"

definition metric_names :: "string list" where
  "metric_names = map metric_name metrics"

text \<open>\<open>RunConfig(max_workers=1)\<close>.\<close>

definition ragas_run_config :: run_config where
  "ragas_run_config = \<lparr>max_workers = 1\<rparr>"

text \<open>The body of \<open>for metric in metrics\<close>, on the store of the metric objects.\<close>

definition set_metric :: "ragas_llm \<Rightarrow> ragas_embeddings \<Rightarrow> metric \<Rightarrow> metric_store \<Rightarrow> metric_store" where
  "set_metric ragas_llm ragas_embeddings m st =
     (let st1 = st(m := (st m)\<lparr>metric_llm := Some ragas_llm\<rparr>)
      in if metric_embeddings (st1 m) \<noteq> None
         then st1(m := (st1 m)\<lparr>metric_embeddings := Some (Some ragas_embeddings)\<rparr>)
         else st1)"

text \<open>\<open>{name: np.nan for name in metric_names}\<close>.\<close>

definition nan_scores :: "string \<rightharpoonup> pyfloat" where
  "nan_scores = map_of (map (\<lambda>name. (name, NaN)) metric_names)"

text \<open>
  The processing of \<open>result.scores\<close>: the message printed and the value of \<open>scores_dict\<close>
  afterwards. A list counts only when it is not empty; an empty list has no \<open>to_dict\<close> and
  is no dict, so it falls to the last branch. A \<open>to_dict\<close> that raises is caught by the
  handler of the \<open>try\<close> block, with \<open>scores_dict\<close> not yet assigned.
\<close>

definition process_scores ::
  "scores_obj \<Rightarrow> (string \<rightharpoonup> pyfloat) \<Rightarrow> message \<times> (string \<rightharpoonup> pyfloat)" where
  "process_scores scores_obj scores_dict =
     (case scores_obj of
        Scores_list l \<Rightarrow>
          (if length l > 0 then (Msg_success_list, l ! 0)
           else (Msg_unexpected_scores, scores_dict))
      | Scores_with_to_dict r \<Rightarrow>
          (case r of
             None \<Rightarrow> (Msg_exception, scores_dict)
           | Some d \<Rightarrow> (Msg_success_object, d))
      | Scores_dict d \<Rightarrow> (Msg_success_dict, d)
      | Scores_other \<Rightarrow> (Msg_unexpected_scores, scores_dict))"

text \<open>The \<open>try\<close> block with its handler: the calls made and \<open>scores_dict\<close> at its end.\<close>

definition try_block ::
  "env \<Rightarrow> rag_chain \<Rightarrow> retriever \<Rightarrow> nat \<Rightarrow> nat \<Rightarrow> eval_row
     \<Rightarrow> event list \<times> (string \<rightharpoonup> pyfloat)" where
  "try_block e rag_chain retriever i index row =
     (let scores_dict = nan_scores;
          q = question row;
          evaluate = (\<lambda>response contexts.
            Evaluate \<lparr>call_question = q, call_answer = response, call_contexts = contexts,
                      call_ground_truth = ground_truth row, call_metrics = metrics,
                      call_raise_exceptions = True, call_run_config = ragas_run_config\<rparr>)
      in case question_result e i index of
           Chain_raises \<Rightarrow>
             ([Chain_invoke rag_chain q, Print Msg_exception], scores_dict)
         | Retriever_raises response \<Rightarrow>
             ([Chain_invoke rag_chain q, Retriever_invoke retriever q, Print Msg_exception],
              scores_dict)
         | Scoring_raises response contexts \<Rightarrow>
             ([Chain_invoke rag_chain q, Retriever_invoke retriever q,
               evaluate response contexts, Print Msg_exception], scores_dict)
         | Evaluated response contexts result \<Rightarrow>
             (let calls = [Chain_invoke rag_chain q, Retriever_invoke retriever q,
                           evaluate response contexts]
              in case result of
                   Without_scores \<Rightarrow> (calls @ [Print Msg_no_scores], scores_dict)
                 | With_scores scores_obj \<Rightarrow>
                     (let (msg, scores_dict') = process_scores scores_obj scores_dict
                      in (calls @ [Print msg], scores_dict'))))"

text \<open>One pass of the loop over the questions: \<open>try\<close>, handler and \<open>finally\<close>.\<close>

definition question_body ::
  "env \<Rightarrow> rag_chain \<Rightarrow> retriever \<Rightarrow> nat \<Rightarrow> nat \<Rightarrow> nat \<Rightarrow> eval_row
     \<Rightarrow> event list \<times> (string \<times> pyfloat) list" where
  "question_body e rag_chain retriever n i index row =
     (let (ev, scores_dict) = try_block e rag_chain retriever i index row;
          final_scores = map (\<lambda>name. (name, dict_get scores_dict name NaN)) metric_names
      in (Print (Msg_evaluating_question (index + 1) n) # ev
            @ [Print Msg_pause_180, Sleep 180],
          final_scores))"

fun question_loop ::
  "env \<Rightarrow> rag_chain \<Rightarrow> retriever \<Rightarrow> nat \<Rightarrow> nat \<Rightarrow> (nat \<times> eval_row) list
     \<Rightarrow> event list \<times> (string \<times> pyfloat) list list" where
  "question_loop e rag_chain retriever n i [] = ([], [])"
| "question_loop e rag_chain retriever n i ((index, row) # rest) =
     (let (ev, final_scores) = question_body e rag_chain retriever n i index row;
          (ev', combination_scores) = question_loop e rag_chain retriever n i rest
      in (ev @ ev', final_scores # combination_scores))"

text \<open>
  The loop that prints the averages of one configuration. Formatting a string with
  \<open>.4f\<close> raises ValueError.
\<close>

fun print_scores :: "(string \<times> pyval) list \<Rightarrow> event list \<times> py_exception option" where
  "print_scores [] = ([], None)"
| "print_scores ((metric_name', score) # items) =
     (if metric_name' \<noteq> ''combination_name'' then
        (case score of
           Float v \<Rightarrow>
             (let (ev, r) = print_scores items
              in ((case v of
                     Num x \<Rightarrow> Print (Msg_metric_score metric_name' x)
                   | NaN \<Rightarrow> Print (Msg_metric_failed metric_name')) # ev, r))
         | Str s \<Rightarrow> ([], Some ValueError))
      else print_scores items)"

text \<open>One pass of the loop over the configurations.\<close>

definition config_body ::
  "shared_config \<Rightarrow> env \<Rightarrow> document list \<Rightarrow> eval_row list \<Rightarrow> nat \<Rightarrow> nat
     \<Rightarrow> hyper_config \<Rightarrow> event list \<times> (py_exception + (string \<times> pyval) list)" where
  "config_body cfg e original_docs eval_dataset_pd num_configs i config =
     (let header = [Print (Text (CHR 0x0A # replicate 50 CHR ''='')),
                    Print (Msg_evaluating_config (i + 1) num_configs (name config)),
                    Print (Msg_hyperparameters (chunk_size config) (top_k config) (temperature config)),
                    Print (Text (replicate 50 CHR ''=''))]
      in case create_rag_chain cfg (build_result e i) original_docs
                (temperature config) (top_k config) (chunk_size config) of
           (ev, Inl exc) \<Rightarrow> (header @ ev, Inl exc)
         | (ev, Inr (rag_chain, retriever)) \<Rightarrow>
             (let (evq, combination_scores) =
                    question_loop e rag_chain retriever
                      (length eval_dataset_pd) i (iterrows eval_dataset_pd);
                  avg_scores = mean_to_dict (DataFrame NaN combination_scores);
                  avg_scores_df = dict_set (map (\<lambda>(k, v). (k, Float v)) avg_scores)
                                    ''combination_name'' (Str (name config));
                  (evp, r) = print_scores avg_scores_df;
                  pause = (if i < num_configs - 1
                           then [Print (Text (CHR 0x0A # replicate 50 CHR ''-'')),
                                 Print Msg_pause_300,
                                 Print (Text (replicate 50 CHR ''-'')),
                                 Sleep 300]
                           else [])
              in case r of
                   Some exc \<Rightarrow> (header @ ev @ evq @ Print Msg_average_header # evp, Inl exc)
                 | None \<Rightarrow>
                     (header @ ev @ evq @ Print Msg_average_header # evp @ pause,
                      Inr avg_scores_df)))"

fun config_loop ::
  "shared_config \<Rightarrow> env \<Rightarrow> document list \<Rightarrow> eval_row list \<Rightarrow> nat
     \<Rightarrow> (nat \<times> hyper_config) list \<Rightarrow> event list \<times> (py_exception + (string \<times> pyval) list list)" where
  "config_loop cfg e original_docs eval_dataset_pd num_configs [] = ([], Inr [])"
| "config_loop cfg e original_docs eval_dataset_pd num_configs ((i, config) # rest) =
     (case config_body cfg e original_docs eval_dataset_pd num_configs i config of
        (ev, Inl exc) \<Rightarrow> (ev, Inl exc)
      | (ev, Inr avg_scores_df) \<Rightarrow>
          (case config_loop cfg e original_docs eval_dataset_pd num_configs rest of
             (ev', Inl exc) \<Rightarrow> (ev @ ev', Inl exc)
           | (ev', Inr all_results) \<Rightarrow> (ev @ ev', Inr (avg_scores_df # all_results))))"

text \<open>\<open>enumerate(configs)\<close>.\<close>

definition enumerate_configs :: "hyper_config list \<Rightarrow> (nat \<times> hyper_config) list" where
  "enumerate_configs configs = zip [0 ..< length configs] configs"

text \<open>The end of \<open>run_evaluation\<close>: the table of all results with its columns put in order.\<close>

definition final_table :: "(string \<times> pyval) list list \<Rightarrow> py_exception + pyval dataframe" where
  "final_table all_results =
     (let final_results_df = DataFrame (Float NaN) all_results;
          final_metric_cols = filter (\<lambda>name. name \<in> set (columns final_results_df)) metric_names
      in getitem_columns final_results_df (''combination_name'' # final_metric_cols))"

text \<open>
  \<open>run_evaluation\<close> returns what was printed and called, the store of the metric objects
  afterwards, and either an exception or its return value: \<open>None\<close> or the table.
\<close>

definition run_evaluation ::
  "shared_config \<Rightarrow> env \<Rightarrow> metric_store \<Rightarrow> document list
     \<Rightarrow> event list \<times> metric_store \<times> (py_exception + pyval dataframe option)" where
  "run_evaluation cfg e store original_docs =
     (case configure_ragas_dependencies cfg e of
        (ev0, (Some ragas_llm, Some ragas_embeddings)) \<Rightarrow>
          (let configs = get_manual_hyperparameter_configs
           in case create_evaluation_dataset of
                Inl exc \<Rightarrow> (ev0, store, Inl exc)
              | Inr eval_dataset_pd \<Rightarrow>
                  (let store' = fold (set_metric ragas_llm ragas_embeddings) metrics store;
                       num_configs = length configs
                   in case config_loop cfg e original_docs eval_dataset_pd
                             num_configs (enumerate_configs configs) of
                        (ev, Inl exc) \<Rightarrow> (ev0 @ ev, store', Inl exc)
                      | (ev, Inr all_results) \<Rightarrow>
                          (case final_table all_results of
                             Inl exc \<Rightarrow> (ev0 @ ev, store', Inl exc)
                           | Inr final_results_df \<Rightarrow>
                               (ev0 @ ev, store', Inr (Some final_results_df)))))
      | (ev0, _) \<Rightarrow> (ev0, store, Inr None))"

section \<open>Notions used in the statements\<close>

text \<open>
  The arithmetic mean that ignores missing entries, in the words of the specification:
  the scores that are not missing are kept, their sum is divided by their number, and
  the mean of nothing is missing.
\<close>

definition present :: "pyfloat list \<Rightarrow> real list" where
  "present vs = concat (map (\<lambda>v. case v of NaN \<Rightarrow> [] | Num x \<Rightarrow> [x]) vs)"

definition mean_ignoring_missing :: "pyfloat list \<Rightarrow> pyfloat" where
  "mean_ignoring_missing vs =
     (if present vs = [] then NaN
      else Num (sum_list (present vs) / real (length (present vs))))"

text \<open>
  The chain and the retriever that \<open>create_rag_chain\<close> returns for a preset, and the
  calls it makes on the way, when nothing raises.
\<close>

definition preset_chain :: "shared_config \<Rightarrow> document list \<Rightarrow> hyper_config \<Rightarrow> rag_chain" where
  "preset_chain cfg docs c =
     (case rag_objects cfg docs (temperature c) (top_k c) (chunk_size c) of
        (text_splitter, embeddings, retriever, llm, rag_chain) \<Rightarrow> rag_chain)"

definition preset_retriever :: "shared_config \<Rightarrow> document list \<Rightarrow> hyper_config \<Rightarrow> retriever" where
  "preset_retriever cfg docs c =
     (case rag_objects cfg docs (temperature c) (top_k c) (chunk_size c) of
        (text_splitter, embeddings, retriever, llm, rag_chain) \<Rightarrow> retriever)"

definition build_calls :: "shared_config \<Rightarrow> document list \<Rightarrow> hyper_config \<Rightarrow> event list" where
  "build_calls cfg docs c =
     fst (create_rag_chain cfg Built docs (temperature c) (top_k c) (chunk_size c))"

text \<open>A trace without what it prints: the calls and the sleeps.\<close>

fun is_print :: "event \<Rightarrow> bool" where
  "is_print (Print m) = True"
| "is_print ev = False"

definition effects :: "event list \<Rightarrow> event list" where
  "effects tr = filter (\<lambda>ev. \<not> is_print ev) tr"

text \<open>
  \<open>combination_scores\<close> at the end of the loop over the questions under configuration
  \<open>i\<close> with preset \<open>c\<close>: one record per question, in order.
\<close>

definition preset_scores ::
  "shared_config \<Rightarrow> env \<Rightarrow> document list \<Rightarrow> eval_row list \<Rightarrow> nat \<Rightarrow> hyper_config
     \<Rightarrow> (string \<times> pyfloat) list list" where
  "preset_scores cfg e docs rows i c =
     snd (question_loop e (preset_chain cfg docs c) (preset_retriever cfg docs c) (length rows) i (iterrows rows))"

text \<open>The per-question scores of one metric: that metric's entry of every record.\<close>

definition score_column :: "(string \<times> pyfloat) list list \<Rightarrow> string \<Rightarrow> pyfloat list" where
  "score_column combination_scores name' =
     map (\<lambda>r. dict_get (map_of r) name' NaN) combination_scores"

text \<open>
  \<open>avg_scores_df\<close> of a configuration once its name has been stored in it, and the
  lines printed for it.
\<close>

definition averages_dict :: "(string \<times> pyfloat) list list \<Rightarrow> string \<Rightarrow> (string \<times> pyval) list" where
  "averages_dict combination_scores s =
     map (\<lambda>name. (name, Float (nanmean (score_column combination_scores name)))) metric_names
       @ [(''combination_name'', Str s)]"

definition average_prints :: "(string \<times> pyfloat) list list \<Rightarrow> event list" where
  "average_prints cs =
     map (\<lambda>k. case nanmean (score_column cs k) of
                 Num x \<Rightarrow> Print (Msg_metric_score k x)
               | NaN \<Rightarrow> Print (Msg_metric_failed k)) metric_names"

text \<open>The rows of the benchmark.\<close>

definition benchmark :: "eval_row list" where
  "benchmark = map (\<lambda>(q, g). \<lparr>question = q, ground_truth = g\<rparr>) (zip data_question data_ground_truth)"

text \<open>What \<open>configure_ragas_dependencies\<close> prints and constructs when nothing raises.\<close>

definition configure_events :: "shared_config \<Rightarrow> event list" where
  "configure_events cfg =
     [Print (Text ''Configurando dependencias de RAGAS (LLM y Embeddings)...''),
      New_chat_llm (gemini_llm cfg), New_embeddings (hf_embeddings_of cfg), Print Msg_configured]"

text \<open>
  The table of a run in which every chain is built: the names of the presets and, for
  each metric, the mean of its column of per-question scores under each preset.
\<close>

definition results_table ::
  "shared_config \<Rightarrow> env \<Rightarrow> document list \<Rightarrow> pyval dataframe" where
  "results_table cfg e docs =
     \<lparr>df_index = [0 ..< length get_manual_hyperparameter_configs],
      df_series =
        (''combination_name'',
         map (\<lambda>(i, c). Str (name c)) (enumerate_configs get_manual_hyperparameter_configs))
        # map (\<lambda>name'. (name',
                 map (\<lambda>(i, c). Float (nanmean (score_column (preset_scores cfg e docs benchmark i c) name')))
                   (enumerate_configs get_manual_hyperparameter_configs)))
            metric_names\<rparr>"

text \<open>
  A concrete run: every construction succeeds; under every configuration the first
  question fails in the chain, the second is scored from a list, the third from a dict
  and the fourth comes back with an empty list of scores.
\<close>

definition example_config :: shared_config where
  "example_config = \<lparr>GEMINI_MODEL = ''gemini'', GEMINI_API_KEY = ''key'', MAX_OUT_TOKENS = 512,
                      EMBEDDING_MODEL = ''minilm'', CHUNK_OVERLAP = 200\<rparr>"

definition example_env :: env where
  "example_env =
     \<lparr>configure_result = Configured,
      build_result = (\<lambda>i. Built),
      question_result = (\<lambda>i index.
        if index = 0 then Chain_raises
        else if index = 1 then
          Evaluated ''a'' [''c'']
            (With_scores (Scores_list [[''faithfulness'' \<mapsto> Num 0.5, ''context_recall'' \<mapsto> NaN]]))
        else if index = 2 then
          Evaluated ''a'' [''c'']
            (With_scores (Scores_dict [''faithfulness'' \<mapsto> Num 1, ''answer_relevancy'' \<mapsto> Num 0.25]))
        else Evaluated ''a'' [''c''] (With_scores (Scores_list [])))\<rparr>"

definition example_store :: metric_store where
  "example_store =
     (\<lambda>m. \<lparr>metric_llm = None,
            metric_embeddings = (if m = answer_relevancy then Some None else None)\<rparr>)"

text \<open>The chain invocations of a trace, in order: the chain and the question it was given.\<close>

primrec chain_invocations :: "event list \<Rightarrow> (rag_chain \<times> string) list" where
  "chain_invocations [] = []"
| "chain_invocations (ev # tr) =
     (case ev of
        Chain_invoke ch q \<Rightarrow> (ch, q) # chain_invocations tr
      | _ \<Rightarrow> chain_invocations tr)"

text \<open>The durations slept, in order.\<close>

primrec sleeps :: "event list \<Rightarrow> nat list" where
  "sleeps [] = []"
| "sleeps (ev # tr) = (case ev of Sleep n \<Rightarrow> n # sleeps tr | _ \<Rightarrow> sleeps tr)"

text \<open>The questions asked and the durations slept, in order.\<close>

primrec pacing :: "event list \<Rightarrow> (string + nat) list" where
  "pacing [] = []"
| "pacing (ev # tr) =
     (case ev of
        Chain_invoke ch q \<Rightarrow> Inl q # pacing tr
      | Sleep n \<Rightarrow> Inr n # pacing tr
      | _ \<Rightarrow> pacing tr)"

text \<open>The calls of the scoring library, in order.\<close>

primrec evaluate_calls :: "event list \<Rightarrow> evaluate_call list" where
  "evaluate_calls [] = []"
| "evaluate_calls (ev # tr) =
     (case ev of Evaluate call \<Rightarrow> call # evaluate_calls tr | _ \<Rightarrow> evaluate_calls tr)"

text \<open>
  The calls of one question that leave the script: everything its \<open>try\<close> block does
  but print.
\<close>

definition question_calls :: "env \<Rightarrow> rag_chain \<Rightarrow> retriever \<Rightarrow> nat \<Rightarrow> nat \<Rightarrow> eval_row \<Rightarrow> event list" where
  "question_calls e ch r i index row = effects (fst (try_block e ch r i index row))"











text \<open>A run in which the configuration of the scoring dependencies raises.\<close>

definition unconfigured_env :: env where
  "unconfigured_env = example_env\<lparr>configure_result := Configure_raises At_hf_embeddings\<rparr>"


section \<open>Properties\<close>

lemma length_data_question: "length data_question = 4"
  by (simp add: data_question_def)

lemma length_data_ground_truth: "length data_ground_truth = 4"
  by (simp add: data_ground_truth_def)

lemma length_configs: "length get_manual_hyperparameter_configs = 4"
  by (simp add: get_manual_hyperparameter_configs_def)

lemma dataset_rows:
  "create_evaluation_dataset =
     Inr (map (\<lambda>(q, g). \<lparr>question = q, ground_truth = g\<rparr>) (zip data_question data_ground_truth))"
  by (simp add: create_evaluation_dataset_def pd_DataFrame_columns_def
      length_data_question length_data_ground_truth)

lemma map_question_zip: "length qs = length gs \<Longrightarrow>
  map question (map (\<lambda>(q, g). \<lparr>question = q, ground_truth = g\<rparr>) (zip qs gs)) = qs"
  by (induction qs gs rule: list_induct2) simp_all

lemma map_ground_truth_zip: "length qs = length gs \<Longrightarrow>
  map ground_truth (map (\<lambda>(q, g). \<lparr>question = q, ground_truth = g\<rparr>) (zip qs gs)) = gs"
  by (induction qs gs rule: list_induct2) simp_all

lemma dataset_length: "create_evaluation_dataset = Inr rows \<Longrightarrow> length rows = 4"
  by (auto simp: dataset_rows length_data_question length_data_ground_truth)

lemma iterrows_index: "map fst (iterrows rs) = [0 ..< length rs]"
  by (simp add: iterrows_def)

lemma iterrows_rows: "map snd (iterrows rs) = rs"
  by (simp add: iterrows_def)

lemma metric_names_eq:
  "metric_names = [''faithfulness'', ''answer_relevancy'', ''context_precision'', ''context_recall'']"
  by (simp add: metric_names_def metrics_def)

lemma distinct_metric_names: "distinct metric_names"
  by (simp add: metric_names_eq)

lemma combination_name_fresh: "''combination_name'' \<notin> set metric_names"
  by (simp add: metric_names_eq)

subsection \<open>Dicts and frames\<close>

lemma dict_set_fresh: "k \<notin> fst ` set d \<Longrightarrow> dict_set d k v = d @ [(k, v)]"
  by (induction d) auto

lemma first_seen_known: "set ks \<subseteq> set seen \<Longrightarrow> first_seen seen ks = seen"
  by (induction ks arbitrary: seen) auto

lemma first_seen_distinct: "distinct (seen @ ks) \<Longrightarrow> first_seen seen ks = seen @ ks"
  by (induction ks arbitrary: seen) auto

lemma first_seen_append: "first_seen seen (ks @ ks') = first_seen (first_seen seen ks) ks'"
  by (induction ks arbitrary: seen) auto

lemma first_seen_uniform:
  assumes "records \<noteq> []" and "\<forall>r \<in> set records. map fst r = ks" and "distinct ks"
  shows "first_seen [] (concat (map (map fst) records)) = ks"
proof -
  obtain r rs where recs: "records = r # rs" using assms(1) by (cases records) auto
  have r: "map fst r = ks" using assms(2) recs by simp
  have "set (concat (map (map fst) rs)) \<subseteq> set ks"
    using assms(2) recs by auto
  then have "first_seen ks (concat (map (map fst) rs)) = ks"
    by (rule first_seen_known)
  moreover have "first_seen [] ks = ks"
    using first_seen_distinct [of "[]" ks] assms(3) by simp
  ultimately show ?thesis
    by (simp add: recs r first_seen_append)
qed

lemma DataFrame_uniform:
  assumes "records \<noteq> []" and "\<forall>r \<in> set records. map fst r = ks" and "distinct ks"
  shows "DataFrame na records =
           \<lparr>df_index = [0 ..< length records],
            df_series = map (\<lambda>c. (c, map (\<lambda>r. dict_get (map_of r) c na) records)) ks\<rparr>"
  by (simp add: DataFrame_def first_seen_uniform [OF assms])

lemma map_of_tabulate: "map_of (map (\<lambda>c. (c, g c)) ks) c = (if c \<in> set ks then Some (g c) else None)"
  by (induction ks) auto

lemma select_series_tabulate:
  "set cs \<subseteq> set ks \<Longrightarrow>
   select_series (map (\<lambda>c. (c, g c)) ks) cs = Inr (map (\<lambda>c. (c, g c)) cs)"
  by (induction cs) (auto simp: map_of_tabulate)

lemma select_series_columns:
  "select_series ss cs = Inr out \<Longrightarrow> map fst out = cs"
  by (induction cs arbitrary: out) (auto split: option.splits sum.splits)

lemma getitem_columns_columns:
  "getitem_columns df cs = Inr df' \<Longrightarrow> columns df' = cs"
  by (auto simp: getitem_columns_def columns_def split: sum.splits dest: select_series_columns)

subsection \<open>The mean\<close>

lemma sum_fillna0: "sum_list (map fillna0 vs) = sum_list (present vs)"
  by (induction vs) (auto simp: present_def fillna0_def split: pyfloat.splits)

lemma count_present: "length vs - length (filter isna vs) = length (present vs)"
proof -
  have "length vs = length (filter isna vs) + length (present vs)"
    by (induction vs) (auto simp: present_def isna_def split: pyfloat.splits)
  then show ?thesis by simp
qed

lemma nanmean_is_mean_ignoring_missing: "nanmean vs = mean_ignoring_missing vs"
  by (simp add: nanmean_def mean_ignoring_missing_def sum_fillna0 count_present Let_def)

lemma present_all_missing: "present vs = [] \<longleftrightarrow> (\<forall>v \<in> set vs. v = NaN)"
  by (induction vs) (auto simp: present_def split: pyfloat.splits)

subsection \<open>Chain construction\<close>

lemma create_rag_chain_Built:
  "create_rag_chain cfg Built docs (temperature c) (top_k c) (chunk_size c) =
     (build_calls cfg docs c, Inr (preset_chain cfg docs c, preset_retriever cfg docs c))"
  by (simp add: build_calls_def preset_chain_def preset_retriever_def create_rag_chain_def
      split: prod.splits)

lemma create_rag_chain_raises:
  "snd (create_rag_chain cfg (Build_raises s) docs t k cs) = Inl External_failure"
  by (cases s) (simp_all add: create_rag_chain_def split: prod.splits)

lemma effects_build_calls: "effects (build_calls cfg docs c) = build_calls cfg docs c"
  by (simp add: effects_def build_calls_def create_rag_chain_def split: prod.splits)

subsection \<open>The loop over the questions\<close>

lemma question_body_scores:
  "snd (question_body e ch r n i index row) =
     map (\<lambda>name. (name, dict_get (snd (try_block e ch r i index row)) name NaN)) metric_names"
  by (simp add: question_body_def split: prod.splits)

lemma question_body_keys: "map fst (snd (question_body e ch r n i index row)) = metric_names"
  by (simp add: question_body_scores comp_def)

lemma question_body_effects:
  "effects (fst (question_body e ch r n i index row)) =
     effects (fst (try_block e ch r i index row)) @ [Sleep 180]"
  by (simp add: question_body_def effects_def split: prod.splits)

lemma question_loop_scores:
  "snd (question_loop e ch r n i irows) =
     map (\<lambda>(index, row). snd (question_body e ch r n i index row)) irows"
  by (induction irows) (auto split: prod.splits)

lemma question_loop_events:
  "fst (question_loop e ch r n i irows) =
     concat (map (\<lambda>(index, row). fst (question_body e ch r n i index row)) irows)"
  by (induction irows) (auto split: prod.splits)

lemma effects_concat: "effects (concat trs) = concat (map effects trs)"
  by (induction trs) (simp_all add: effects_def)

lemma effects_append: "effects (a @ b) = effects a @ effects b"
  by (simp add: effects_def)

lemma question_loop_effects:
  "effects (fst (question_loop e ch r n i irows)) =
     concat (map (\<lambda>(index, row). effects (fst (try_block e ch r i index row)) @ [Sleep 180]) irows)"
  by (simp add: question_loop_events effects_concat comp_def split_def question_body_effects)

lemma question_loop_keys:
  "\<forall>r' \<in> set (snd (question_loop e ch r n i irows)). map fst r' = metric_names"
  by (auto simp: question_loop_scores question_body_keys)

lemma question_loop_length: "length (snd (question_loop e ch r n i irows)) = length irows"
  by (simp add: question_loop_scores)

subsection \<open>The averages of one configuration\<close>

lemma mean_to_dict_scores:
  assumes "combination_scores \<noteq> []" and "\<forall>r \<in> set combination_scores. map fst r = metric_names"
  shows "mean_to_dict (DataFrame NaN combination_scores) =
           map (\<lambda>name. (name, nanmean (score_column combination_scores name))) metric_names"
  by (simp add: DataFrame_uniform [OF assms distinct_metric_names] mean_to_dict_def
      score_column_def comp_def)

lemma print_scores_averages:
  "''combination_name'' \<notin> set ks \<Longrightarrow>
   print_scores (map (\<lambda>k. (k, Float (f k))) ks @ [(''combination_name'', Str s)]) =
     (map (\<lambda>k. case f k of Num x \<Rightarrow> Print (Msg_metric_score k x)
                          | NaN \<Rightarrow> Print (Msg_metric_failed k)) ks, None)"
  by (induction ks) (auto split: prod.splits)

lemma avg_scores_df_eq:
  assumes "combination_scores \<noteq> []" and "\<forall>r \<in> set combination_scores. map fst r = metric_names"
  shows "dict_set (map (\<lambda>(k, v). (k, Float v)) (mean_to_dict (DataFrame NaN combination_scores)))
           ''combination_name'' (Str s) = averages_dict combination_scores s"
proof -
  have "''combination_name'' \<notin> fst ` set (map (\<lambda>name. (name, Float (nanmean (score_column combination_scores name)))) metric_names)"
    using combination_name_fresh by (auto simp: image_iff)
  then show ?thesis
    by (simp add: mean_to_dict_scores [OF assms] comp_def averages_dict_def dict_set_fresh)
qed

lemma averages_dict_keys: "map fst (averages_dict cs s) = metric_names @ [''combination_name'']"
  by (simp add: averages_dict_def comp_def)

lemma averages_dict_name:
  "dict_get (map_of (averages_dict cs s)) ''combination_name'' na = Str s"
  using combination_name_fresh
  by (simp add: averages_dict_def dict_get_def map_of_tabulate map_add_def)

lemma averages_dict_metric:
  "name' \<in> set metric_names \<Longrightarrow>
   dict_get (map_of (averages_dict cs s)) name' na = Float (nanmean (score_column cs name'))"
  by (simp add: averages_dict_def dict_get_def map_of_tabulate map_add_def)

lemma print_scores_averages_dict:
  "print_scores (averages_dict cs s) =
     (map (\<lambda>k. case nanmean (score_column cs k) of
                  Num x \<Rightarrow> Print (Msg_metric_score k x)
                | NaN \<Rightarrow> Print (Msg_metric_failed k)) metric_names, None)"
  unfolding averages_dict_def
  by (rule print_scores_averages [OF combination_name_fresh])

lemma preset_scores_nonempty: "rows \<noteq> [] \<Longrightarrow> preset_scores cfg e docs rows i c \<noteq> []"
  by (simp add: preset_scores_def question_loop_scores iterrows_def)

lemma preset_scores_keys: "\<forall>r \<in> set (preset_scores cfg e docs rows i c). map fst r = metric_names"
  unfolding preset_scores_def by (rule question_loop_keys)

lemma config_body_Built:
  assumes "build_result e i = Built" and "rows \<noteq> []"
  shows "config_body cfg e docs rows n i c =
    ([Print (Text (CHR 0x0A # replicate 50 CHR ''='')),
      Print (Msg_evaluating_config (i + 1) n (name c)),
      Print (Msg_hyperparameters (chunk_size c) (top_k c) (temperature c)),
      Print (Text (replicate 50 CHR ''=''))]
     @ build_calls cfg docs c
     @ fst (question_loop e (preset_chain cfg docs c) (preset_retriever cfg docs c) (length rows) i (iterrows rows))
     @ Print Msg_average_header # average_prints (preset_scores cfg e docs rows i c)
     @ (if i < n - 1
        then [Print (Text (CHR 0x0A # replicate 50 CHR ''-'')), Print Msg_pause_300,
              Print (Text (replicate 50 CHR ''-'')), Sleep 300]
        else []),
     Inr (averages_dict (preset_scores cfg e docs rows i c) (name c)))"
proof -
  let ?cs = "preset_scores cfg e docs rows i c"
  have avg: "dict_set (map (\<lambda>(k, v). (k, Float v)) (mean_to_dict (DataFrame NaN ?cs)))
               ''combination_name'' (Str (name c)) = averages_dict ?cs (name c)"
    by (rule avg_scores_df_eq [OF preset_scores_nonempty [OF assms(2)] preset_scores_keys])
  obtain evq where ql: "question_loop e (preset_chain cfg docs c) (preset_retriever cfg docs c) (length rows) i (iterrows rows) = (evq, ?cs)"
    by (metis preset_scores_def prod.collapse)
  have evq: "fst (question_loop e (preset_chain cfg docs c) (preset_retriever cfg docs c) (length rows) i (iterrows rows)) = evq"
    by (simp add: ql)
  show ?thesis
    unfolding evq
    unfolding config_body_def
    by (simp add: assms(1) create_rag_chain_Built Let_def ql avg
        print_scores_averages_dict average_prints_def
        del: replicate.simps)
qed

lemma config_body_raises:
  "build_result e i = Build_raises s \<Longrightarrow>
   snd (config_body cfg e docs rows n i c) = Inl External_failure"
  using create_rag_chain_raises [of cfg s docs "temperature c" "top_k c" "chunk_size c"]
  by (auto simp: config_body_def Let_def split: prod.splits sum.splits)

lemma config_loop_Built:
  assumes "rows \<noteq> []"
  shows "\<forall>(i, c) \<in> set ics. build_result e i = Built \<Longrightarrow>
   config_loop cfg e docs rows n ics =
     (concat (map (\<lambda>(i, c). fst (config_body cfg e docs rows n i c)) ics),
      Inr (map (\<lambda>(i, c). averages_dict (preset_scores cfg e docs rows i c) (name c)) ics))"
proof (induction ics)
  case Nil
  then show ?case by simp
next
  case (Cons ic ics)
  obtain i c where ic: "ic = (i, c)" by (cases ic)
  have b: "build_result e i = Built" using Cons.prems ic by simp
  have rest: "\<forall>(i, c) \<in> set ics. build_result e i = Built" using Cons.prems by simp
  show ?case
    by (simp add: ic config_body_Built [OF b assms] Cons.IH [OF rest]
        del: replicate.simps)
qed

lemma config_loop_Inr_Built:
  "snd (config_loop cfg e docs rows n ics) = Inr all_results \<Longrightarrow>
   \<forall>(i, c) \<in> set ics. build_result e i = Built"
proof (induction ics arbitrary: all_results)
  case Nil
  then show ?case by simp
next
  case (Cons ic ics)
  obtain i c where ic: "ic = (i, c)" by (cases ic)
  have "build_result e i = Built"
  proof (cases "build_result e i")
    case Built
    then show ?thesis .
  next
    case (Build_raises s)
    from config_body_raises [OF this, of cfg docs rows n c] Cons.prems
    show ?thesis by (auto simp: ic split: prod.splits sum.splits)
  qed
  moreover have "\<forall>(i, c) \<in> set ics. build_result e i = Built"
  proof -
    from Cons.prems obtain rest where "snd (config_loop cfg e docs rows n ics) = Inr rest"
      by (auto simp: ic split: prod.splits sum.splits)
    then show ?thesis by (rule Cons.IH)
  qed
  ultimately show ?case by (simp add: ic)
qed

lemma final_table_averages:
  assumes "ics \<noteq> []"
  shows "final_table (map (\<lambda>(i, c). averages_dict (S i c) (name c)) ics) =
     Inr \<lparr>df_index = [0 ..< length ics],
          df_series = (''combination_name'', map (\<lambda>(i, c). Str (name c)) ics)
            # map (\<lambda>name'. (name', map (\<lambda>(i, c). Float (nanmean (score_column (S i c) name'))) ics))
                metric_names\<rparr>"
proof -
  let ?recs = "map (\<lambda>(i, c). averages_dict (S i c) (name c)) ics"
  let ?ks = "metric_names @ [''combination_name'']"
  let ?g = "\<lambda>k. map (\<lambda>r. dict_get (map_of r) k (Float NaN)) ?recs"
  have ne: "?recs \<noteq> []" using assms by simp
  have keys: "\<forall>r \<in> set ?recs. map fst r = ?ks"
    by (auto simp: averages_dict_keys)
  have dist: "distinct ?ks"
    using distinct_metric_names combination_name_fresh by simp
  have df: "DataFrame (Float NaN) ?recs =
      \<lparr>df_index = [0 ..< length ?recs], df_series = map (\<lambda>k. (k, ?g k)) ?ks\<rparr>"
    by (rule DataFrame_uniform [OF ne keys dist])
  have cols: "columns (DataFrame (Float NaN) ?recs) = ?ks"
    by (simp add: df columns_def comp_def)
  have filt: "filter (\<lambda>name'. name' \<in> set (columns (DataFrame (Float NaN) ?recs))) metric_names
      = metric_names"
    by (simp add: cols)
  have sel: "select_series (map (\<lambda>k. (k, ?g k)) ?ks) (''combination_name'' # metric_names)
      = Inr (map (\<lambda>k. (k, ?g k)) (''combination_name'' # metric_names))"
    by (rule select_series_tabulate) auto
  have g_name: "?g ''combination_name'' = map (\<lambda>(i, c). Str (name c)) ics"
    by (simp add: comp_def split_def averages_dict_name)
  have g_metric: "map (\<lambda>k. (k, ?g k)) metric_names =
      map (\<lambda>name'. (name', map (\<lambda>(i, c). Float (nanmean (score_column (S i c) name'))) ics)) metric_names"
    by (rule map_cong) (simp_all add: comp_def split_def averages_dict_metric)
  show ?thesis
    unfolding final_table_def Let_def filt
    unfolding df getitem_columns_def
    using sel g_name g_metric by simp
qed

lemma dataset_benchmark: "create_evaluation_dataset = Inr benchmark"
  by (simp add: dataset_rows benchmark_def)

lemma length_benchmark: "length benchmark = 4"
  by (simp add: benchmark_def length_data_question length_data_ground_truth)

lemma benchmark_nonempty: "benchmark \<noteq> []"
  using length_benchmark by auto

lemma enumerate_configs_mem:
  "(i, c) \<in> set (enumerate_configs cs) \<longleftrightarrow> i < length cs \<and> c = cs ! i"
proof
  assume "(i, c) \<in> set (enumerate_configs cs)"
  then show "i < length cs \<and> c = cs ! i"
    by (auto simp: enumerate_configs_def set_zip)
next
  assume a: "i < length cs \<and> c = cs ! i"
  then have "enumerate_configs cs ! i = (i, c)" and "i < length (enumerate_configs cs)"
    by (simp_all add: enumerate_configs_def)
  then show "(i, c) \<in> set (enumerate_configs cs)"
    by (metis nth_mem)
qed

lemma enumerate_configs_nth:
  "i < length cs \<Longrightarrow> enumerate_configs cs ! i = (i, cs ! i)"
  by (simp add: enumerate_configs_def)

lemma length_enumerate_configs: "length (enumerate_configs cs) = length cs"
  by (simp add: enumerate_configs_def)

lemma enumerate_configs_nonempty: "enumerate_configs get_manual_hyperparameter_configs \<noteq> []"
  using length_enumerate_configs [of get_manual_hyperparameter_configs] length_configs by auto

lemma configure_Configured:
  "configure_result e = Configured \<Longrightarrow>
   configure_ragas_dependencies cfg e =
     (configure_events cfg,
      (Some (LangchainLLMWrapper (gemini_llm cfg)),
       Some (LangchainEmbeddingsWrapper (hf_embeddings_of cfg))))"
  by (simp add: configure_ragas_dependencies_def configure_events_def)

lemma configure_raises:
  "configure_result e = Configure_raises s \<Longrightarrow>
   snd (configure_ragas_dependencies cfg e) = (None, None)"
  by (cases s) (simp_all add: configure_ragas_dependencies_def)

lemma run_evaluation_completes:
  assumes "configure_result e = Configured"
      and "\<forall>i < length get_manual_hyperparameter_configs. build_result e i = Built"
  shows "run_evaluation cfg e store docs =
     (configure_events cfg
        @ concat (map (\<lambda>(i, c). fst (config_body cfg e docs benchmark
                                      (length get_manual_hyperparameter_configs) i c))
                   (enumerate_configs get_manual_hyperparameter_configs)),
      fold (set_metric (LangchainLLMWrapper (gemini_llm cfg))
                       (LangchainEmbeddingsWrapper (hf_embeddings_of cfg))) metrics store,
      Inr (Some (results_table cfg e docs)))"
proof -
  have built: "\<forall>(i, c) \<in> set (enumerate_configs get_manual_hyperparameter_configs).
      build_result e i = Built"
    using assms(2) by (auto simp: enumerate_configs_mem)
  have tab: "final_table (map (\<lambda>(i, c). averages_dict (preset_scores cfg e docs benchmark i c) (name c))
               (enumerate_configs get_manual_hyperparameter_configs))
             = Inr (results_table cfg e docs)"
    by (simp add: final_table_averages [OF enumerate_configs_nonempty] results_table_def
        length_enumerate_configs)
  show ?thesis
    unfolding run_evaluation_def
    by (simp add: configure_Configured [OF assms(1)] dataset_benchmark Let_def
        config_loop_Built [OF benchmark_nonempty built] tab)
qed

lemma run_evaluation_table_completes:
  assumes "snd (snd (run_evaluation cfg e store docs)) = Inr (Some df)"
  shows "configure_result e = Configured
         \<and> (\<forall>i < length get_manual_hyperparameter_configs. build_result e i = Built)"
proof -
  have c: "configure_result e = Configured"
  proof (cases "configure_result e")
    case Configured
    then show ?thesis .
  next
    case (Configure_raises s)
    from configure_raises [OF this, of cfg] assms show ?thesis
      by (auto simp: run_evaluation_def split: prod.splits option.splits)
  qed
  from assms obtain all_results where
    "snd (config_loop cfg e docs benchmark (length get_manual_hyperparameter_configs)
           (enumerate_configs get_manual_hyperparameter_configs)) = Inr all_results"
    by (auto simp: run_evaluation_def configure_Configured [OF c] dataset_benchmark Let_def
        split: prod.splits sum.splits)
  from config_loop_Inr_Built [OF this] show ?thesis
    by (auto simp: c enumerate_configs_mem)
qed

lemma run_evaluation_table:
  assumes "snd (snd (run_evaluation cfg e store docs)) = Inr (Some df)"
  shows "df = results_table cfg e docs"
proof -
  from run_evaluation_table_completes [OF assms]
  have "run_evaluation cfg e store docs =
     (configure_events cfg
        @ concat (map (\<lambda>(i, c). fst (config_body cfg e docs benchmark
                                      (length get_manual_hyperparameter_configs) i c))
                   (enumerate_configs get_manual_hyperparameter_configs)),
      fold (set_metric (LangchainLLMWrapper (gemini_llm cfg))
                       (LangchainEmbeddingsWrapper (hf_embeddings_of cfg))) metrics store,
      Inr (Some (results_table cfg e docs)))"
    by (intro run_evaluation_completes) auto
  with assms show ?thesis by simp
qed

lemma results_table_column:
  assumes "name' \<in> set metric_names"
  shows "map_of (df_series (results_table cfg e docs)) name' =
     Some (map (\<lambda>(i, c). Float (nanmean (score_column (preset_scores cfg e docs benchmark i c) name')))
             (enumerate_configs get_manual_hyperparameter_configs))"
proof -
  have "name' \<noteq> ''combination_name''" using assms combination_name_fresh by auto
  then show ?thesis
    using assms by (simp add: results_table_def map_of_tabulate)
qed

lemma results_table_columns:
  "columns (results_table cfg e docs) = ''combination_name'' # metric_names"
  by (simp add: results_table_def columns_def comp_def)

lemma example_completes:
  "configure_result example_env = Configured
   \<and> (\<forall>i < length get_manual_hyperparameter_configs. build_result example_env i = Built)"
  by (simp add: example_env_def)

lemma example_builds:
  "map (build_result example_env) [0, 1, 2, 3] = [Built, Built, Built, Built]"
  by (simp add: example_env_def)

lemma example_table:
  "snd (snd (run_evaluation example_config example_env example_store [''doc''])) =
     Inr (Some (results_table example_config example_env [''doc'']))"
  using example_completes by (simp add: run_evaluation_completes)

lemma iterrows_4:
  "length rows = 4 \<Longrightarrow>
   iterrows rows = [(0, rows ! 0), (Suc 0, rows ! 1), (2, rows ! 2), (3, rows ! 3)]"
proof -
  assume "length rows = 4"
  then obtain a b c d where rows: "rows = [a, b, c, d]"
    by (auto simp: numeral_eq_Suc length_Suc_conv)
  show ?thesis
    by (simp add: rows iterrows_def numeral_eq_Suc upt_conv_Cons)
qed

lemma example_try_block:
  "snd (try_block example_env ch r i 0 row) = nan_scores"
  "snd (try_block example_env ch r i (Suc 0) row) = [''faithfulness'' \<mapsto> Num 0.5, ''context_recall'' \<mapsto> NaN]"
  "snd (try_block example_env ch r i 2 row) = [''faithfulness'' \<mapsto> Num 1, ''answer_relevancy'' \<mapsto> Num 0.25]"
  "snd (try_block example_env ch r i 3 row) = nan_scores"
  by (simp_all add: try_block_def example_env_def process_scores_def Let_def)

lemma example_faithfulness:
  "score_column (preset_scores example_config example_env [''doc''] benchmark i c) ''faithfulness''
     = [NaN, Num 0.5, Num 1, NaN]"
  unfolding score_column_def preset_scores_def question_loop_scores
    iterrows_4 [OF length_benchmark]
  by (simp add: question_body_scores example_try_block metric_names_eq
      dict_get_def nan_scores_def)

subsection \<open>Projections of traces\<close>

lemma chain_invocations_append:
  "chain_invocations (a @ b) = chain_invocations a @ chain_invocations b"
  by (induction a) (auto split: event.splits)



lemma evaluate_calls_append: "evaluate_calls (a @ b) = evaluate_calls a @ evaluate_calls b"
  by (induction a) (auto split: event.splits)

lemma chain_invocations_concat:
  "chain_invocations (concat trs) = concat (map chain_invocations trs)"
  by (induction trs) (simp_all add: chain_invocations_append)



lemma evaluate_calls_concat: "evaluate_calls (concat trs) = concat (map evaluate_calls trs)"
  by (induction trs) (simp_all add: evaluate_calls_append)

lemma chain_invocations_effects: "chain_invocations (effects tr) = chain_invocations tr"
  by (induction tr) (auto simp: effects_def split: event.splits)



lemma evaluate_calls_effects: "evaluate_calls (effects tr) = evaluate_calls tr"
  by (induction tr) (auto simp: effects_def split: event.splits)

subsection \<open>The calls of one question\<close>

lemma question_calls_cases:
  "question_calls e ch r i index row =
     (case question_result e i index of
        Chain_raises \<Rightarrow> [Chain_invoke ch (question row)]
      | Retriever_raises response \<Rightarrow>
          [Chain_invoke ch (question row), Retriever_invoke r (question row)]
      | Scoring_raises response contexts \<Rightarrow>
          [Chain_invoke ch (question row), Retriever_invoke r (question row),
           Evaluate \<lparr>call_question = question row, call_answer = response,
                     call_contexts = contexts, call_ground_truth = ground_truth row,
                     call_metrics = metrics, call_raise_exceptions = True,
                     call_run_config = ragas_run_config\<rparr>]
      | Evaluated response contexts result \<Rightarrow>
          [Chain_invoke ch (question row), Retriever_invoke r (question row),
           Evaluate \<lparr>call_question = question row, call_answer = response,
                     call_contexts = contexts, call_ground_truth = ground_truth row,
                     call_metrics = metrics, call_raise_exceptions = True,
                     call_run_config = ragas_run_config\<rparr>])"
  by (simp add: question_calls_def try_block_def effects_def Let_def
      split: question_outcome.splits eval_result.splits prod.splits)

lemma question_calls_invocations:
  "chain_invocations (question_calls e ch r i index row) = [(ch, question row)]"
  by (simp add: question_calls_cases split: question_outcome.splits)



lemma question_calls_workers:
  "\<forall>call \<in> set (evaluate_calls (question_calls e ch r i index row)).
     call_run_config call = ragas_run_config"
  by (simp add: question_calls_cases split: question_outcome.splits)





lemma question_loop_effects_calls:
  "effects (fst (question_loop e ch r n i irows)) =
     concat (map (\<lambda>(index, row). question_calls e ch r i index row @ [Sleep 180]) irows)"
  by (simp add: question_loop_effects question_calls_def)

subsection \<open>The effects of a run\<close>

lemma effects_average_prints: "effects (average_prints cs) = []"
  by (simp add: average_prints_def effects_def filter_empty_conv split: pyfloat.splits)

lemma config_body_effects:
  assumes "build_result e i = Built" and "rows \<noteq> []"
  shows "effects (fst (config_body cfg e docs rows n i c)) =
     build_calls cfg docs c
     @ concat (map (\<lambda>(index, row).
                 question_calls e (preset_chain cfg docs c) (preset_retriever cfg docs c) i index row
                   @ [Sleep 180]) (iterrows rows))
     @ (if i < n - 1 then [Sleep 300] else [])"
proof -
  have pr: "\<And>m tr. effects (Print m # tr) = effects tr"
    by (simp add: effects_def)
  have sl: "\<And>n. effects [Sleep n] = [Sleep n]"
    by (simp add: effects_def)
  have nil: "effects [] = []"
    by (simp add: effects_def)
  show ?thesis
    by (simp add: config_body_Built [OF assms] effects_append pr sl nil effects_build_calls
        question_loop_effects_calls effects_average_prints del: replicate.simps)
qed

lemma effects_configure_events:
  "effects (configure_events cfg) = [New_chat_llm (gemini_llm cfg), New_embeddings (hf_embeddings_of cfg)]"
  by (simp add: configure_events_def effects_def)

lemma run_effects:
  assumes "configure_result e = Configured"
      and "\<forall>i < length get_manual_hyperparameter_configs. build_result e i = Built"
  shows "effects (fst (run_evaluation cfg e store docs)) =
     [New_chat_llm (gemini_llm cfg), New_embeddings (hf_embeddings_of cfg)]
     @ concat (map (\<lambda>(i, c).
          build_calls cfg docs c
          @ concat (map (\<lambda>(index, row).
                      question_calls e (preset_chain cfg docs c) (preset_retriever cfg docs c)
                        i index row @ [Sleep 180]) (iterrows benchmark))
          @ (if i < length get_manual_hyperparameter_configs - 1 then [Sleep 300] else []))
        (enumerate_configs get_manual_hyperparameter_configs))"
proof -
  have tr: "fst (run_evaluation cfg e store docs) =
      configure_events cfg
        @ concat (map (\<lambda>(i, c). fst (config_body cfg e docs benchmark
                                      (length get_manual_hyperparameter_configs) i c))
                   (enumerate_configs get_manual_hyperparameter_configs))"
    by (simp add: run_evaluation_completes [OF assms])
  have h: "map (effects \<circ> (\<lambda>(i, c).
            fst (config_body cfg e docs benchmark (length get_manual_hyperparameter_configs) i c)))
          (enumerate_configs get_manual_hyperparameter_configs)
      = map (\<lambda>(i, c).
          build_calls cfg docs c
          @ concat (map (\<lambda>(index, row).
                      question_calls e (preset_chain cfg docs c) (preset_retriever cfg docs c)
                        i index row @ [Sleep 180]) (iterrows benchmark))
          @ (if i < length get_manual_hyperparameter_configs - 1 then [Sleep 300] else []))
        (enumerate_configs get_manual_hyperparameter_configs)"
    using assms(2)
    by (intro map_cong refl)
       (auto simp: enumerate_configs_mem config_body_effects [OF _ benchmark_nonempty])
  show ?thesis
    unfolding tr effects_append effects_concat map_map h effects_configure_events ..
qed

lemma build_calls_eq:
  "build_calls cfg docs c =
     [Split_documents \<lparr>splitter_chunk_size = chunk_size c,
                       splitter_chunk_overlap = CHUNK_OVERLAP cfg\<rparr> docs,
      New_embeddings (hf_embeddings_of cfg),
      FAISS_from_documents (hf_embeddings_of cfg),
      New_chat_llm (chain_llm (preset_chain cfg docs c))]"
  by (simp add: build_calls_def create_rag_chain_def rag_objects_def preset_chain_def Let_def)

lemma preset_chain_eq:
  "preset_chain cfg docs c =
     \<lparr>chain_retriever = preset_retriever cfg docs c,
      chain_prompt = prompt_template,
      chain_llm = \<lparr>llm_model = GEMINI_MODEL cfg, llm_api_key = GEMINI_API_KEY cfg,
                   llm_temperature = temperature c, llm_timeout = None,
                   llm_max_output_tokens = Some (MAX_OUT_TOKENS cfg)\<rparr>\<rparr>"
  by (simp add: preset_chain_def preset_retriever_def rag_objects_def Let_def)

lemma preset_retriever_eq:
  "preset_retriever cfg docs c =
     \<lparr>retriever_docs = docs,
      retriever_splitter = \<lparr>splitter_chunk_size = chunk_size c,
                            splitter_chunk_overlap = CHUNK_OVERLAP cfg\<rparr>,
      retriever_embedding = \<lparr>model_name = EMBEDDING_MODEL cfg, device = ''cpu'',
                             normalize_embeddings = True\<rparr>,
      search_k = top_k c\<rparr>"
  by (simp add: preset_retriever_def rag_objects_def hf_embeddings_of_def Let_def)

subsection \<open>What a run reports\<close>












subsection \<open>Projections of a run that returns a table\<close>


lemma map_snd_enumerate_configs: "map (\<lambda>ic. f (snd ic)) (enumerate_configs cs) = map f cs"
proof -
  have "map (\<lambda>ic. f (snd ic)) (enumerate_configs cs) = map f (map snd (enumerate_configs cs))"
    by (simp add: comp_def)
  also have "map snd (enumerate_configs cs) = cs"
    by (simp add: enumerate_configs_def)
  finally show ?thesis .
qed

lemma length_iterrows: "length (iterrows rows) = length rows"
  by (simp add: iterrows_def)

lemma pause_projections:
  "chain_invocations (if b then [Sleep n] else []) = []"
  "evaluate_calls (if b then [Sleep n] else []) = []"
  "sleeps (if b then [Sleep n] else []) = (if b then [n] else [])"
  "pacing (if b then [Sleep n] else []) = (if b then [Inr n] else [])"
  by simp_all

lemma build_calls_projections:
  "chain_invocations (build_calls cfg docs c) = []"
  "evaluate_calls (build_calls cfg docs c) = []"
  "sleeps (build_calls cfg docs c) = []"
  "pacing (build_calls cfg docs c) = []"
  by (simp_all add: build_calls_eq)

lemma run_invocations:
  assumes "configure_result e = Configured"
      and "\<forall>i < length get_manual_hyperparameter_configs. build_result e i = Built"
  shows "chain_invocations (fst (run_evaluation cfg e store docs)) =
     concat (map (\<lambda>(i, c). map (\<lambda>(index, row). (preset_chain cfg docs c, question row))
                              (iterrows benchmark))
               (enumerate_configs get_manual_hyperparameter_configs))"
proof -
  have "chain_invocations (fst (run_evaluation cfg e store docs)) =
        chain_invocations (effects (fst (run_evaluation cfg e store docs)))"
    by (simp add: chain_invocations_effects)
  also have "\<dots> = concat (map (\<lambda>(i, c).
                 map (\<lambda>(index, row). (preset_chain cfg docs c, question row)) (iterrows benchmark))
               (enumerate_configs get_manual_hyperparameter_configs))"
    by (simp add: run_effects [OF assms] chain_invocations_append chain_invocations_concat
        comp_def split_def build_calls_projections pause_projections question_calls_invocations)
  finally show ?thesis .
qed



lemma run_evaluate_calls:
  assumes "configure_result e = Configured"
      and "\<forall>i < length get_manual_hyperparameter_configs. build_result e i = Built"
  shows "evaluate_calls (fst (run_evaluation cfg e store docs)) =
     concat (map (\<lambda>(i, c).
          concat (map (\<lambda>(index, row).
                    evaluate_calls (question_calls e (preset_chain cfg docs c)
                                      (preset_retriever cfg docs c) i index row))
                  (iterrows benchmark)))
        (enumerate_configs get_manual_hyperparameter_configs))"
proof -
  have "evaluate_calls (fst (run_evaluation cfg e store docs)) =
        evaluate_calls (effects (fst (run_evaluation cfg e store docs)))"
    by (simp add: evaluate_calls_effects)
  also have "\<dots> = concat (map (\<lambda>(i, c).
          concat (map (\<lambda>(index, row).
                    evaluate_calls (question_calls e (preset_chain cfg docs c)
                                      (preset_retriever cfg docs c) i index row))
                  (iterrows benchmark)))
        (enumerate_configs get_manual_hyperparameter_configs))"
    by (simp add: run_effects [OF assms] evaluate_calls_append evaluate_calls_concat
        comp_def split_def build_calls_projections pause_projections)
  finally show ?thesis .
qed

lemma run_evaluate_calls_workers:
  assumes "configure_result e = Configured"
      and "\<forall>i < length get_manual_hyperparameter_configs. build_result e i = Built"
  shows "\<forall>call \<in> set (evaluate_calls (fst (run_evaluation cfg e store docs))).
           call_run_config call = ragas_run_config"
  using question_calls_workers
  by (auto simp: run_evaluate_calls [OF assms])



subsection \<open>Runs that raise nothing\<close>





subsection \<open>The record of a question\<close>




subsection \<open>No frame is printed\<close>












subsection \<open>A build that raises\<close>



subsection \<open>The scores of the concrete run\<close>





text \<open>
  C1. For every configuration, the average of a metric in the returned table is the
  arithmetic mean of the per-question scores of that metric with the missing ones left
  out, and it is missing, with no exception, when every per-question score is missing.
\<close>

theorem C1_average_ignores_missing:
  assumes "snd (snd (run_evaluation cfg e store docs)) = Inr (Some df)"
      and "i < length get_manual_hyperparameter_configs"
      and "name' \<in> set metric_names"
  shows "\<exists>column. map_of (df_series df) name' = Some column
           \<and> length column = length get_manual_hyperparameter_configs
           \<and> column ! i = Float (mean_ignoring_missing
                 (score_column (preset_scores cfg e docs benchmark i
                                  (get_manual_hyperparameter_configs ! i)) name'))
           \<and> ((\<forall>v \<in> set (score_column (preset_scores cfg e docs benchmark i
                                  (get_manual_hyperparameter_configs ! i)) name'). v = NaN)
                \<longrightarrow> column ! i = Float NaN)"
proof -
  let ?col = "map (\<lambda>(i, c). Float (nanmean (score_column (preset_scores cfg e docs benchmark i c) name')))
             (enumerate_configs get_manual_hyperparameter_configs)"
  let ?vs = "score_column (preset_scores cfg e docs benchmark i
                                  (get_manual_hyperparameter_configs ! i)) name'"
  have df: "df = results_table cfg e docs" by (rule run_evaluation_table [OF assms(1)])
  have col: "map_of (df_series df) name' = Some ?col"
    unfolding df by (rule results_table_column [OF assms(3)])
  have len: "length ?col = length get_manual_hyperparameter_configs"
    by (simp add: length_enumerate_configs)
  have nth: "?col ! i = Float (mean_ignoring_missing ?vs)"
    using assms(2)
    by (simp add: length_enumerate_configs enumerate_configs_nth nanmean_is_mean_ignoring_missing)
  have miss: "(\<forall>v \<in> set ?vs. v = NaN) \<longrightarrow> ?col ! i = Float NaN"
    unfolding nth by (simp add: mean_ignoring_missing_def present_all_missing)
  from col len nth miss show ?thesis by blast
qed

theorem C1_average_ignores_missing_witness:
  "snd (snd (run_evaluation example_config example_env example_store [''doc''])) =
     Inr (Some (results_table example_config example_env [''doc'']))
   \<and> (1::nat) < length get_manual_hyperparameter_configs
   \<and> ''faithfulness'' \<in> set metric_names
   \<and> (\<exists>column. map_of (df_series (results_table example_config example_env [''doc''])) ''faithfulness''
                   = Some column
         \<and> length column = 4
         \<and> column ! 1 = Float (Num 0.75))"
proof -
  have h2: "(1::nat) < length get_manual_hyperparameter_configs" by (simp add: length_configs)
  have h3: "''faithfulness'' \<in> set metric_names" by (simp add: metric_names_eq)
  have m: "mean_ignoring_missing [NaN, Num 0.5, Num 1, NaN] = Num 0.75"
    by (simp add: mean_ignoring_missing_def present_def)
  have e: "score_column (preset_scores example_config example_env [''doc''] benchmark 1
             (get_manual_hyperparameter_configs ! 1)) ''faithfulness'' = [NaN, Num 0.5, Num 1, NaN]"
    by (rule example_faithfulness)
  from C1_average_ignores_missing [OF example_table h2 h3]
  obtain column where
    "map_of (df_series (results_table example_config example_env [''doc''])) ''faithfulness''
       = Some column"
    "length column = length get_manual_hyperparameter_configs"
    "column ! 1 = Float (Num 0.75)"
    unfolding e m by blast
  then show ?thesis
    using example_table h2 h3 by (simp add: length_configs)
qed

text \<open>
  C2. The columns of the returned table are \<open>combination_name\<close> followed by the
  configured metric names that are columns of the collected results, in the configured
  order; in every run that returns a table these are all four.
\<close>

theorem C2_columns_in_configured_order:
  assumes "snd (snd (run_evaluation cfg e store docs)) = Inr (Some df)"
  shows "\<exists>all_results.
           snd (config_loop cfg e docs benchmark (length get_manual_hyperparameter_configs)
                  (enumerate_configs get_manual_hyperparameter_configs)) = Inr all_results
           \<and> columns df = ''combination_name''
                 # filter (\<lambda>name'. name' \<in> set (columns (DataFrame (Float NaN) all_results))) metric_names
           \<and> columns df = [''combination_name'', ''faithfulness'', ''answer_relevancy'',
                            ''context_precision'', ''context_recall'']"
proof -
  have c: "configure_result e = Configured"
    and b: "\<forall>i < length get_manual_hyperparameter_configs. build_result e i = Built"
    using run_evaluation_table_completes [OF assms] by auto
  have built: "\<forall>(i, c) \<in> set (enumerate_configs get_manual_hyperparameter_configs).
      build_result e i = Built"
    using b by (auto simp: enumerate_configs_mem)
  let ?all = "map (\<lambda>(i, c). averages_dict (preset_scores cfg e docs benchmark i c) (name c))
               (enumerate_configs get_manual_hyperparameter_configs)"
  have loop: "snd (config_loop cfg e docs benchmark (length get_manual_hyperparameter_configs)
                  (enumerate_configs get_manual_hyperparameter_configs)) = Inr ?all"
    by (simp add: config_loop_Built [OF benchmark_nonempty built])
  have "final_table ?all = Inr df"
    using assms
    by (auto simp: run_evaluation_def configure_Configured [OF c] dataset_benchmark Let_def
        config_loop_Built [OF benchmark_nonempty built] split: sum.splits)
  then have filt: "columns df = ''combination_name''
      # filter (\<lambda>name'. name' \<in> set (columns (DataFrame (Float NaN) ?all))) metric_names"
    unfolding final_table_def Let_def by (rule getitem_columns_columns)
  have "df = results_table cfg e docs" by (rule run_evaluation_table [OF assms])
  then have "columns df = [''combination_name'', ''faithfulness'', ''answer_relevancy'',
                            ''context_precision'', ''context_recall'']"
    by (simp add: results_table_columns metric_names_eq)
  with loop filt show ?thesis by blast
qed

theorem C2_columns_in_configured_order_witness:
  "snd (snd (run_evaluation example_config example_env example_store [''doc''])) =
     Inr (Some (results_table example_config example_env [''doc'']))
   \<and> columns (results_table example_config example_env [''doc'']) =
       [''combination_name'', ''faithfulness'', ''answer_relevancy'',
        ''context_precision'', ''context_recall'']"
  using C2_columns_in_configured_order [OF example_table] example_table by blast

text \<open>
  C5. \<open>get_manual_hyperparameter_configs\<close> returns a fixed list of exactly four named
  presets, each a chunk size, a retrieval depth and a temperature;
  \<open>create_evaluation_dataset\<close> returns a fixed benchmark of exactly four rows, and row
  \<open>i\<close> holds question \<open>i\<close> together with ground truth \<open>i\<close>.
\<close>

theorem C5_fixed_presets_and_benchmark:
  "length get_manual_hyperparameter_configs = 4
   \<and> map name get_manual_hyperparameter_configs =
       [''Creative & Balanced'', ''Wide Context Sweep'', ''Balanced Natural'', ''Dense Precision'']
   \<and> map chunk_size get_manual_hyperparameter_configs = [1000, 1200, 1000, 1800]
   \<and> map top_k get_manual_hyperparameter_configs = [4, 6, 3, 2]
   \<and> map temperature get_manual_hyperparameter_configs = [0.3, 0.1, 0.2, 0.15]
   \<and> create_evaluation_dataset = Inr benchmark
   \<and> length benchmark = 4
   \<and> length data_question = 4
   \<and> length data_ground_truth = 4
   \<and> map question benchmark = data_question
   \<and> map ground_truth benchmark = data_ground_truth
   \<and> map fst (iterrows benchmark) = [0, 1, 2, 3]"
proof -
  have presets: "map name get_manual_hyperparameter_configs =
       [''Creative & Balanced'', ''Wide Context Sweep'', ''Balanced Natural'', ''Dense Precision'']
   \<and> map chunk_size get_manual_hyperparameter_configs = [1000, 1200, 1000, 1800]
   \<and> map top_k get_manual_hyperparameter_configs = [4, 6, 3, 2]
   \<and> map temperature get_manual_hyperparameter_configs = [0.3, 0.1, 0.2, 0.15]"
    by (simp add: get_manual_hyperparameter_configs_def)
  have len: "length data_question = length data_ground_truth"
    by (simp add: length_data_question length_data_ground_truth)
  have q: "map question benchmark = data_question"
    unfolding benchmark_def by (rule map_question_zip [OF len])
  have g: "map ground_truth benchmark = data_ground_truth"
    unfolding benchmark_def by (rule map_ground_truth_zip [OF len])
  have "map fst (iterrows benchmark) = [0, Suc 0, 2, 3]"
    by (simp add: iterrows_4 [OF length_benchmark])
  then have ix: "map fst (iterrows benchmark) = [0, 1, 2, 3]" by simp
  from presets q g ix show ?thesis
    by (simp add: length_configs dataset_benchmark length_benchmark
        length_data_question length_data_ground_truth)
qed





text \<open>
  C9. When the configuration of the scoring dependencies raises,
  \<open>configure_ragas_dependencies\<close> returns \<open>(None, None)\<close> and \<open>run_evaluation\<close> returns
  \<open>None\<close> at once: it does only what \<open>configure_ragas_dependencies\<close> did, invokes no
  chain, scores nothing, sleeps never, and leaves the metric objects as they were.
\<close>

theorem C9_configuration_failure_returns_none:
  assumes "configure_result e = Configure_raises s"
  shows "snd (configure_ragas_dependencies cfg e) = (None, None)
   \<and> run_evaluation cfg e store docs = (fst (configure_ragas_dependencies cfg e), store, Inr None)
   \<and> fst (configure_ragas_dependencies cfg e) =
       Print (Text ''Configurando dependencias de RAGAS (LLM y Embeddings)...'')
       # New_chat_llm (gemini_llm cfg)
       # (case s of At_gemini_llm \<Rightarrow> [] | At_hf_embeddings \<Rightarrow> [New_embeddings (hf_embeddings_of cfg)])
       @ [Print Msg_configure_error]
   \<and> chain_invocations (fst (run_evaluation cfg e store docs)) = []
   \<and> evaluate_calls (fst (run_evaluation cfg e store docs)) = []
   \<and> sleeps (fst (run_evaluation cfg e store docs)) = []"
  using assms
  by (cases s) (simp_all add: configure_ragas_dependencies_def run_evaluation_def)

theorem C9_configuration_failure_returns_none_witness:
  "configure_result unconfigured_env = Configure_raises At_hf_embeddings
   \<and> snd (configure_ragas_dependencies example_config unconfigured_env) = (None, None)
   \<and> run_evaluation example_config unconfigured_env example_store [''doc''] =
       ([Print (Text ''Configurando dependencias de RAGAS (LLM y Embeddings)...''),
         New_chat_llm (gemini_llm example_config),
         New_embeddings (hf_embeddings_of example_config),
         Print Msg_configure_error],
        example_store, Inr None)"
proof -
  have h: "configure_result unconfigured_env = Configure_raises At_hf_embeddings"
    by (simp add: unconfigured_env_def)
  from C9_configuration_failure_returns_none [OF h, of example_config example_store "[''doc'']"] h
  show ?thesis by simp
qed

text \<open>
  C10. The chain of a preset is built from the preset's chunk size, top_k and temperature
  and from nothing else of the preset: the chunk overlap, the embedding model, the model
  identifier, its key and the maximum of output tokens are those of the shared
  configuration, and the prompt template is the fixed text of \<open>create_rag_chain\<close>. In a run
  that returns a table every chain invoked is the chain of a preset.
\<close>

theorem C10_only_three_hyperparameters_vary:
  "create_rag_chain cfg Built docs (temperature c) (top_k c) (chunk_size c) =
     (build_calls cfg docs c, Inr (preset_chain cfg docs c, preset_retriever cfg docs c))
   \<and> preset_chain cfg docs c =
       \<lparr>chain_retriever = preset_retriever cfg docs c,
        chain_prompt = prompt_template,
        chain_llm = \<lparr>llm_model = GEMINI_MODEL cfg, llm_api_key = GEMINI_API_KEY cfg,
                     llm_temperature = temperature c, llm_timeout = None,
                     llm_max_output_tokens = Some (MAX_OUT_TOKENS cfg)\<rparr>\<rparr>
   \<and> preset_retriever cfg docs c =
       \<lparr>retriever_docs = docs,
        retriever_splitter = \<lparr>splitter_chunk_size = chunk_size c,
                              splitter_chunk_overlap = CHUNK_OVERLAP cfg\<rparr>,
        retriever_embedding = \<lparr>model_name = EMBEDDING_MODEL cfg, device = ''cpu'',
                               normalize_embeddings = True\<rparr>,
        search_k = top_k c\<rparr>
   \<and> (chunk_size c = chunk_size c' \<and> top_k c = top_k c' \<and> temperature c = temperature c'
        \<longrightarrow> preset_chain cfg docs c = preset_chain cfg docs c')
   \<and> (configure_result e = Configured
        \<and> (\<forall>i < length get_manual_hyperparameter_configs. build_result e i = Built)
        \<longrightarrow> map fst (chain_invocations (fst (run_evaluation cfg e store docs))) =
              concat (map (\<lambda>c. replicate (length benchmark) (preset_chain cfg docs c))
                        get_manual_hyperparameter_configs))"
proof -
  have same: "chunk_size c = chunk_size c' \<and> top_k c = top_k c' \<and> temperature c = temperature c'
        \<longrightarrow> preset_chain cfg docs c = preset_chain cfg docs c'"
    by (simp add: preset_chain_eq preset_retriever_eq)
  have run: "configure_result e = Configured
        \<and> (\<forall>i < length get_manual_hyperparameter_configs. build_result e i = Built)
        \<longrightarrow> map fst (chain_invocations (fst (run_evaluation cfg e store docs))) =
              concat (map (\<lambda>c. replicate (length benchmark) (preset_chain cfg docs c))
                        get_manual_hyperparameter_configs)"
  proof
    assume a: "configure_result e = Configured
        \<and> (\<forall>i < length get_manual_hyperparameter_configs. build_result e i = Built)"
    then have "chain_invocations (fst (run_evaluation cfg e store docs)) =
         concat (map (\<lambda>(i, c). map (\<lambda>(index, row). (preset_chain cfg docs c, question row))
                              (iterrows benchmark))
               (enumerate_configs get_manual_hyperparameter_configs))"
      by (intro run_invocations) auto
    then show "map fst (chain_invocations (fst (run_evaluation cfg e store docs))) =
              concat (map (\<lambda>c. replicate (length benchmark) (preset_chain cfg docs c))
                        get_manual_hyperparameter_configs)"
      by (simp add: map_concat comp_def split_def map_replicate_const length_iterrows
          map_snd_enumerate_configs
            [of "\<lambda>c. replicate (length benchmark) (preset_chain cfg docs c)"])
  qed
  from same run show ?thesis
    by (simp add: create_rag_chain_Built preset_chain_eq [symmetric] preset_retriever_eq [symmetric])
qed

theorem C10_only_three_hyperparameters_vary_witness:
  "chunk_size \<lparr>name = ''A'', chunk_size = 1000, top_k = 4, temperature = 0.3\<rparr>
     = chunk_size \<lparr>name = ''B'', chunk_size = 1000, top_k = 4, temperature = 0.3\<rparr>
   \<and> preset_chain example_config [''doc'']
         \<lparr>name = ''A'', chunk_size = 1000, top_k = 4, temperature = 0.3\<rparr>
     = preset_chain example_config [''doc'']
         \<lparr>name = ''B'', chunk_size = 1000, top_k = 4, temperature = 0.3\<rparr>
   \<and> configure_result example_env = Configured
   \<and> map (build_result example_env) [0, 1, 2, 3] = [Built, Built, Built, Built]
   \<and> map fst (chain_invocations (fst (run_evaluation example_config example_env example_store [''doc'']))) =
       concat (map (\<lambda>c. replicate (length benchmark) (preset_chain example_config [''doc''] c))
                 get_manual_hyperparameter_configs)"
proof -
  let ?a = "\<lparr>name = ''A'', chunk_size = 1000, top_k = 4, temperature = 0.3\<rparr>"
  let ?b = "\<lparr>name = ''B'', chunk_size = 1000, top_k = 4, temperature = 0.3\<rparr>"
  have h: "chunk_size ?a = chunk_size ?b \<and> top_k ?a = top_k ?b \<and> temperature ?a = temperature ?b"
    by simp
  from C10_only_three_hyperparameters_vary
          [of example_config "[''doc'']" ?a ?b example_env example_store]
  have same: "chunk_size ?a = chunk_size ?b \<and> top_k ?a = top_k ?b \<and> temperature ?a = temperature ?b
      \<longrightarrow> preset_chain example_config [''doc''] ?a = preset_chain example_config [''doc''] ?b"
    and run: "configure_result example_env = Configured
        \<and> (\<forall>i < length get_manual_hyperparameter_configs. build_result example_env i = Built)
        \<longrightarrow> map fst (chain_invocations (fst (run_evaluation example_config example_env example_store [''doc'']))) =
              concat (map (\<lambda>c. replicate (length benchmark) (preset_chain example_config [''doc''] c))
                        get_manual_hyperparameter_configs)"
    by blast+
  from same h have "preset_chain example_config [''doc''] ?a = preset_chain example_config [''doc''] ?b"
    by blast
  moreover from run example_completes
  have "map fst (chain_invocations (fst (run_evaluation example_config example_env example_store [''doc'']))) =
              concat (map (\<lambda>c. replicate (length benchmark) (preset_chain example_config [''doc''] c))
                        get_manual_hyperparameter_configs)"
    by blast
  moreover have "chunk_size ?a = chunk_size ?b" by simp
  ultimately show ?thesis using example_completes example_builds by blast
qed




lemma map_snd_iterrows: "map (\<lambda>ir. f (snd ir)) (iterrows rows) = map f rows"
proof -
  have "map (\<lambda>ir. f (snd ir)) (iterrows rows) = map f (map snd (iterrows rows))"
    by (simp add: comp_def)
  then show ?thesis by (simp add: iterrows_rows)
qed







text \<open>
  C8. In a run that returns a table the configurations are processed in list order and,
  within each, the questions in list order, one after the other; every call of the
  scoring library is made with the run configuration whose \<open>max_workers\<close> is 1.
\<close>

theorem C8_sequential_in_list_order:
  assumes "configure_result e = Configured"
      and "\<forall>i < length get_manual_hyperparameter_configs. build_result e i = Built"
  shows "chain_invocations (fst (run_evaluation cfg e store docs)) =
     concat (map (\<lambda>c. map (\<lambda>row. (preset_chain cfg docs c, question row)) benchmark)
               get_manual_hyperparameter_configs)
   \<and> evaluate_calls (fst (run_evaluation cfg e store docs)) =
       concat (map (\<lambda>(i, c).
            concat (map (\<lambda>(index, row).
                      evaluate_calls (question_calls e (preset_chain cfg docs c)
                                        (preset_retriever cfg docs c) i index row))
                    (iterrows benchmark)))
          (enumerate_configs get_manual_hyperparameter_configs))
   \<and> (\<forall>call \<in> set (evaluate_calls (fst (run_evaluation cfg e store docs))).
         call_run_config call = ragas_run_config)
   \<and> max_workers ragas_run_config = 1"
proof -
  have inv: "chain_invocations (fst (run_evaluation cfg e store docs)) =
     concat (map (\<lambda>c. map (\<lambda>row. (preset_chain cfg docs c, question row)) benchmark)
               get_manual_hyperparameter_configs)"
    unfolding run_invocations [OF assms]
    by (simp add: split_def
        map_snd_iterrows [of "\<lambda>row. (ch, question row)" for ch]
        map_snd_enumerate_configs
          [of "\<lambda>c. map (\<lambda>row. (preset_chain cfg docs c, question row)) benchmark"])
  from inv run_evaluate_calls [OF assms] run_evaluate_calls_workers [OF assms]
  show ?thesis by (simp add: ragas_run_config_def)
qed

theorem C8_sequential_in_list_order_witness:
  "configure_result example_env = Configured
   \<and> map (build_result example_env) [0, 1, 2, 3] = [Built, Built, Built, Built]
   \<and> chain_invocations (fst (run_evaluation example_config example_env example_store [''doc''])) =
       concat (map (\<lambda>c. map (\<lambda>row. (preset_chain example_config [''doc''] c, question row)) benchmark)
                 get_manual_hyperparameter_configs)"
  using C8_sequential_in_list_order [of example_env example_config example_store "[''doc'']"]
        example_completes example_builds
  by blast

end
